theory Spec2Isabelle
  imports Complex_Main
begin

section \<open>Python values\<close>

text \<open>
  The exceptions the modelled code can end in. A raise of the interpreter or of a library
  is the value \<open>Inl e\<close> of a result type \<open>error + 'a\<close>.
\<close>

datatype error =
  UnboundLocalError | TypeError | ValueError | KeyError | AttributeError | IndexError
  | NotImplementedError

text \<open>
  The value of a float: a real number or NaN; every ordering comparison with NaN is false.
  The repository's code compares floats and passes them on; it does no arithmetic on
  them, and the rounding of the arithmetic done inside the libraries is not modelled.
\<close>

datatype pyfloat = Fin real | NaN


datatype cell = Num pyfloat | Str string

section \<open>Tables\<close>

text \<open>
  \<open>select_dtypes\<close> only asks whether a column's dtype is a number, \<open>object\<close>,
  \<open>category\<close> or anything else (bool, datetime, ...), so a dtype is one of these four.
\<close>

datatype dtype = Number | Object | Category | Other

record column =
  col_name :: string
  col_dtype :: dtype
  col_values :: "cell list"

record dataframe =
  n_rows :: nat
  df_columns :: "column list"

definition select_dtypes :: "dtype list \<Rightarrow> dataframe \<Rightarrow> dataframe" where
  "select_dtypes incl df =
     df\<lparr>df_columns := filter (\<lambda>c. col_dtype c \<in> set incl) (df_columns df)\<rparr>"

definition columns :: "dataframe \<Rightarrow> string list" where
  "columns df = map col_name (df_columns df)"

text \<open>A two-dimensional array, held by columns; its shape is \<open>(shape0, length array_columns)\<close>.\<close>

record ndarray =
  shape0 :: nat
  array_columns :: "cell list list"

text \<open>
  \<open>pd.DataFrame(array, columns=names)\<close>: the names must be as many as the array has
  columns, else pandas raises ValueError. The new frame has a fresh index of \<open>shape0\<close> rows.
\<close>

definition DataFrame :: "ndarray \<Rightarrow> string list \<Rightarrow> error + dataframe" where
  "DataFrame arr names =
     (if length names \<noteq> length (array_columns arr) then Inl ValueError
      else Inr \<lparr>n_rows = shape0 arr,
                df_columns = map (\<lambda>(n, vs). \<lparr>col_name = n, col_dtype = Number, col_values = vs\<rparr>)
                                 (zip names (array_columns arr))\<rparr>)"

section \<open>Estimators and the transformer list\<close>

text \<open>\<open>OneHotEncoder sparse_output drop\<close> carries its two keyword arguments.\<close>

datatype estimator =
  MinMaxScaler | RobustScaler | PowerTransformer | StandardScaler
  | LabelEncoder | OrdinalEncoder | OneHotEncoder bool string

datatype pyobj = PStr string | PEst estimator | PNames "string list" | PTuple "pyobj list"

text \<open>
  \<open>list.append\<close> takes exactly one positional argument; called with any other number of
  arguments it raises TypeError and leaves the list as it was.
\<close>

definition list_append :: "pyobj list \<Rightarrow> pyobj list \<Rightarrow> error + pyobj list" where
  "list_append xs args = (case args of [x] \<Rightarrow> Inr (xs @ [x]) | _ \<Rightarrow> Inl TypeError)"

text \<open>
  \<open>encoder_type\<close> is \<open>None\<close> or a dict, here the list of its items.
  \<open>None\<close> and the empty dict are falsy.
\<close>

type_synonym encoder_dict = "(string \<times> string) list option"

definition truthy :: "encoder_dict \<Rightarrow> bool" where
  "truthy encoder_type = (case encoder_type of None \<Rightarrow> False | Some d \<Rightarrow> d \<noteq> [])"

definition dict_get :: "encoder_dict \<Rightarrow> string \<Rightarrow> string option" where
  "dict_get encoder_type k = (case encoder_type of None \<Rightarrow> None | Some d \<Rightarrow> map_of d k)"

definition dict_contains :: "encoder_dict \<Rightarrow> string \<Rightarrow> bool" where
  "dict_contains encoder_type k = (dict_get encoder_type k \<noteq> None)"

section \<open>The library interface\<close>

text \<open>
  scikit-learn is not part of the repository, so the three calls made on the
  \<open>ColumnTransformer\<close> are parameters of the model: \<open>fit_transform\<close> on the transformer
  list and the training frame gives the fitted preprocessor and the transformed array,
  \<open>transform\<close> applies a fitted preprocessor to a frame, and \<open>get_feature_names_out\<close> is
  \<open>preprocessor.named_transformers_[key].get_feature_names_out(cols)\<close>. Each may raise.
  They are functions of the values they are given: the library reads its arguments and
  does not change them.
\<close>

record 'p sklearn =
  fit_transform :: "pyobj list \<Rightarrow> dataframe \<Rightarrow> error + ('p \<times> ndarray)"
  transform :: "'p \<Rightarrow> dataframe \<Rightarrow> error + ndarray"
  get_feature_names_out :: "'p \<Rightarrow> string \<Rightarrow> string list \<Rightarrow> error + string list"

section \<open>preprocessing (data/make\_dataset.py)\<close>

text \<open>
  Lines 72-80. The local variable \<open>scaler\<close> is unbound when the chain starts. The third
  test reads \<open>scaler\<close>, not \<open>scaler_type\<close>: it is reached only when neither of the first
  two branches has bound the variable, and reading an unbound local raises
  UnboundLocalError. Were it bound, an estimator never equals the string \<open>'power'\<close>.
\<close>

definition select_scaler :: "string \<Rightarrow> error + estimator" where
  "select_scaler scaler_type =
     (let scaler = (None :: estimator option) in
      if scaler_type = ''minmax'' then Inr MinMaxScaler
      else if scaler_type = ''robust'' then Inr RobustScaler
      else (case scaler of
              None \<Rightarrow> Inl UnboundLocalError
            | Some s \<Rightarrow> if PEst s = PStr ''power'' then Inr PowerTransformer
                       else Inr StandardScaler))"

text \<open>Lines 87-95: the encoder of one categorical column.\<close>

definition select_encoder :: "encoder_dict \<Rightarrow> string \<Rightarrow> estimator" where
  "select_encoder encoder_type cat_col =
     (if truthy encoder_type \<and> dict_contains encoder_type cat_col then
        (if dict_get encoder_type cat_col = Some ''label'' then LabelEncoder
         else if dict_get encoder_type cat_col = Some ''ordinal'' then OrdinalEncoder
         else OneHotEncoder False ''first'')
      else OneHotEncoder False ''first'')"

text \<open>
  Lines 85-98: the loop over the categorical columns. Line 98 calls \<open>append\<close> with three
  arguments.
\<close>

fun encode_columns :: "encoder_dict \<Rightarrow> string list \<Rightarrow> pyobj list \<Rightarrow> error + pyobj list" where
  "encode_columns encoder_type [] transformers = Inr transformers"
| "encode_columns encoder_type (cat_col # rest) transformers =
     (let encoder = select_encoder encoder_type cat_col in
      case list_append transformers [PStr (''cat_'' @ cat_col), PEst encoder, PNames [cat_col]] of
        Inl e \<Rightarrow> Inl e
      | Inr transformers' \<Rightarrow> encode_columns encoder_type rest transformers')"

text \<open>
  Lines 111-116: the names of the encoded columns, accumulated in \<open>cat_col_names\<close>;
  \<open>names_out\<close> is the library's \<open>get_feature_names_out\<close> call.
\<close>

fun cat_col_names ::
  "('p \<Rightarrow> string \<Rightarrow> string list \<Rightarrow> error + string list) \<Rightarrow> 'p \<Rightarrow> encoder_dict
     \<Rightarrow> string list \<Rightarrow> string list \<Rightarrow> error + string list" where
  "cat_col_names names_out preprocessor encoder_type [] acc = Inr acc"
| "cat_col_names names_out preprocessor encoder_type (cat_col # rest) acc =
     (if truthy encoder_type \<and> dict_get encoder_type cat_col = Some ''onehot'' then
        (case names_out preprocessor (''cat_'' @ cat_col) [cat_col] of
           Inl e \<Rightarrow> Inl e
         | Inr names \<Rightarrow> cat_col_names names_out preprocessor encoder_type rest (acc @ names))
      else cat_col_names names_out preprocessor encoder_type rest (acc @ [cat_col]))"

text \<open>The whole function, lines 69-123, on the values of the two frames.\<close>

definition preprocessing ::
  "'p sklearn \<Rightarrow> dataframe \<Rightarrow> dataframe \<Rightarrow> string \<Rightarrow> encoder_dict
     \<Rightarrow> error + (dataframe \<times> dataframe)" where
  "preprocessing sk train_df test_df scaler_type encoder_type =
     (let num_feat = columns (select_dtypes [Number] train_df);
          cat_feat = columns (select_dtypes [Object, Category] train_df) in
      case select_scaler scaler_type of
        Inl e \<Rightarrow> Inl e
      | Inr scaler \<Rightarrow>
      (case encode_columns encoder_type cat_feat [PTuple [PStr ''num'', PEst scaler, PNames num_feat]] of
        Inl e \<Rightarrow> Inl e
      | Inr transformers \<Rightarrow>
      (case fit_transform sk transformers train_df of
        Inl e \<Rightarrow> Inl e
      | Inr (preprocessor, train_preprocessed) \<Rightarrow>
      (case transform sk preprocessor test_df of
        Inl e \<Rightarrow> Inl e
      | Inr test_preprocessed \<Rightarrow>
      (case cat_col_names (get_feature_names_out sk) preprocessor encoder_type cat_feat [] of
        Inl e \<Rightarrow> Inl e
      | Inr names \<Rightarrow>
      (let all_col_names = num_feat @ names in
       case DataFrame train_preprocessed all_col_names of
        Inl e \<Rightarrow> Inl e
      | Inr train_df_preprocessed \<Rightarrow>
      (case DataFrame test_preprocessed all_col_names of
        Inl e \<Rightarrow> Inl e
      | Inr test_df_preprocessed \<Rightarrow> Inr (train_df_preprocessed, test_df_preprocessed))))))))"

section \<open>preprocessing on the caller's objects\<close>

text \<open>
  A call gets the two frames by reference. The store holds the frame objects: the
  addresses below \<open>next_free\<close> are in use, and \<open>stdout\<close> is what has been printed, a line of
  text or a frame shown by \<open>print\<close>.
\<close>

datatype printed = Line string | Shown dataframe

record 'a world =
  heap :: "nat \<Rightarrow> 'a"
  next_free :: nat
  stdout :: "printed list"

definition alloc :: "'a \<Rightarrow> 'a world \<Rightarrow> nat \<times> 'a world" where
  "alloc v w = (next_free w, w\<lparr>heap := (heap w)(next_free w := v), next_free := Suc (next_free w)\<rparr>)"

text \<open>
  \<open>fit_transform\<close> and \<open>transform\<close> are handed the caller's frame itself, so here they are
  functions on the store: given the address of the frame they return their result and the
  store they leave, which may be any store.
\<close>

record 'p sklearn_ref =
  fit_transform_ref ::
    "pyobj list \<Rightarrow> nat \<Rightarrow> dataframe world \<Rightarrow> (error + 'p \<times> ndarray) \<times> dataframe world"
  transform_ref :: "'p \<Rightarrow> nat \<Rightarrow> dataframe world \<Rightarrow> (error + ndarray) \<times> dataframe world"
  get_feature_names_out_ref :: "'p \<Rightarrow> string \<Rightarrow> string list \<Rightarrow> error + string list"

text \<open>
  Lines 69-123, statement by statement, on the store. \<open>train_df\<close> and \<open>test_df\<close> are
  addresses. Lines 69-70 read the training frame (\<open>select_dtypes\<close> gives a new frame
  and leaves its own as it is); line 103 hands it to \<open>fit_transform\<close>
  and line 104 hands the test frame to \<open>transform\<close>; line 120 makes the first new frame and
  line 121 the second; an exception leaves the store as it is at that statement.
\<close>

definition preprocessing_on_store ::
  "'p sklearn_ref \<Rightarrow> nat \<Rightarrow> nat \<Rightarrow> string \<Rightarrow> encoder_dict \<Rightarrow> dataframe world
     \<Rightarrow> (error + nat \<times> nat) \<times> dataframe world" where
  "preprocessing_on_store skr train_df test_df scaler_type encoder_type w =
     (let num_feat = columns (select_dtypes [Number] (heap w train_df));
          cat_feat = columns (select_dtypes [Object, Category] (heap w train_df)) in
      case select_scaler scaler_type of
        Inl e \<Rightarrow> (Inl e, w)
      | Inr scaler \<Rightarrow>
      (case encode_columns encoder_type cat_feat [PTuple [PStr ''num'', PEst scaler, PNames num_feat]] of
        Inl e \<Rightarrow> (Inl e, w)
      | Inr transformers \<Rightarrow>
      (case fit_transform_ref skr transformers train_df w of
        (Inl e, w1) \<Rightarrow> (Inl e, w1)
      | (Inr (preprocessor, train_preprocessed), w1) \<Rightarrow>
      (case transform_ref skr preprocessor test_df w1 of
        (Inl e, w2) \<Rightarrow> (Inl e, w2)
      | (Inr test_preprocessed, w2) \<Rightarrow>
      (case cat_col_names (get_feature_names_out_ref skr) preprocessor encoder_type cat_feat [] of
        Inl e \<Rightarrow> (Inl e, w2)
      | Inr names \<Rightarrow>
      (let all_col_names = num_feat @ names in
       case DataFrame train_preprocessed all_col_names of
        Inl e \<Rightarrow> (Inl e, w2)
      | Inr train_df_preprocessed \<Rightarrow>
      (let (a, w3) = alloc train_df_preprocessed w2 in
       case DataFrame test_preprocessed all_col_names of
        Inl e \<Rightarrow> (Inl e, w3)
      | Inr test_df_preprocessed \<Rightarrow>
      (let (b, w4) = alloc test_df_preprocessed w3 in (Inr (a, b), w4)))))))))"

text \<open>
  A library whose calls read the frame they are handed and leave the store alone, built
  from the functions of a value-level library.
\<close>

definition by_value :: "'p sklearn \<Rightarrow> 'p sklearn_ref" where
  "by_value sk =
     \<lparr>fit_transform_ref = (\<lambda>transformers a w. (fit_transform sk transformers (heap w a), w)),
      transform_ref = (\<lambda>p a w. (transform sk p (heap w a), w)),
      get_feature_names_out_ref = get_feature_names_out sk\<rparr>"

section \<open>Hypothesis tests (utils/hypothesis\_testing.py)\<close>















section \<open>Library instances to run the model\<close>

text \<open>
  The general theorems below hold for every library. To run the model on concrete frames,
  \<open>minmax_sklearn\<close> answers a transformer list of one \<open>MinMaxScaler\<close> block as
  scikit-learn documents it: each selected column must occur once in the frame
  (ValueError otherwise), a string cell or a frame without rows is a ValueError, the fit
  takes \<open>data_min\<close> and \<open>data_max\<close> over the cells that are not NaN,
  \<open>scale_ = 1 / (data_max - data_min)\<close> with a range below \<open>10 * eps\<close> counting as 1 and
  \<open>min_ = - data_min * scale_\<close>, both NaN for a column of NaN only, and the transform is
  \<open>x * scale_ + min_\<close>. The arithmetic is exact; it is that of the doubles whenever
  every result is a double, as in the examples. Any other transformer list is answered
  with NotImplementedError. The fitted state is the list of (column, scale_, min_).
\<close>

fun cell_floats :: "cell list \<Rightarrow> error + pyfloat list" where
  "cell_floats [] = Inr []"
| "cell_floats (Num x # cs) = (case cell_floats cs of Inl e \<Rightarrow> Inl e | Inr xs \<Rightarrow> Inr (x # xs))"
| "cell_floats (Str s # cs) = Inl ValueError"

fun fin_values :: "pyfloat list \<Rightarrow> real list" where
  "fin_values [] = []"
| "fin_values (Fin x # xs) = x # fin_values xs"
| "fin_values (NaN # xs) = fin_values xs"

definition the_column :: "dataframe \<Rightarrow> string \<Rightarrow> error + pyfloat list" where
  "the_column df n =
     (case filter (\<lambda>c. col_name c = n) (df_columns df) of
        [c] \<Rightarrow>
          (if length (col_values c) \<noteq> n_rows df \<or> n_rows df = 0 then Inl ValueError
           else cell_floats (col_values c))
      | _ \<Rightarrow> Inl ValueError)"

definition minmax_fit :: "pyfloat list \<Rightarrow> pyfloat \<times> pyfloat" where
  "minmax_fit xs =
     (case fin_values xs of
        [] \<Rightarrow> (NaN, NaN)
      | x # rest \<Rightarrow>
          (let data_min = fold min rest x; data_max = fold max rest x;
               scale = 1 / (if data_max - data_min < 10 / 2 ^ 52 then 1 else data_max - data_min)
           in (Fin scale, Fin (0 - data_min * scale))))"

fun minmax_apply :: "pyfloat \<Rightarrow> pyfloat \<Rightarrow> pyfloat \<Rightarrow> pyfloat" where
  "minmax_apply (Fin scale) (Fin mn) (Fin x) = Fin (x * scale + mn)"
| "minmax_apply scale mn x = NaN"

fun fit_columns :: "string list \<Rightarrow> dataframe \<Rightarrow> error + (string \<times> pyfloat \<times> pyfloat) list" where
  "fit_columns [] df = Inr []"
| "fit_columns (n # ns) df =
     (case the_column df n of
        Inl e \<Rightarrow> Inl e
      | Inr xs \<Rightarrow>
          (case fit_columns ns df of
             Inl e \<Rightarrow> Inl e
           | Inr ps \<Rightarrow> Inr ((n, minmax_fit xs) # ps)))"

fun apply_columns ::
  "(string \<times> pyfloat \<times> pyfloat) list \<Rightarrow> dataframe \<Rightarrow> error + cell list list" where
  "apply_columns [] df = Inr []"
| "apply_columns ((n, scale, mn) # ps) df =
     (case the_column df n of
        Inl e \<Rightarrow> Inl e
      | Inr xs \<Rightarrow>
          (case apply_columns ps df of
             Inl e \<Rightarrow> Inl e
           | Inr vss \<Rightarrow> Inr (map (\<lambda>x. Num (minmax_apply scale mn x)) xs # vss)))"

definition minmax_transform ::
  "(string \<times> pyfloat \<times> pyfloat) list \<Rightarrow> dataframe \<Rightarrow> error + ndarray" where
  "minmax_transform ps df =
     (case apply_columns ps df of
        Inl e \<Rightarrow> Inl e
      | Inr vss \<Rightarrow> Inr \<lparr>shape0 = n_rows df, array_columns = vss\<rparr>)"

definition minmax_fit_transform ::
  "pyobj list \<Rightarrow> dataframe \<Rightarrow> error + ((string \<times> pyfloat \<times> pyfloat) list \<times> ndarray)" where
  "minmax_fit_transform transformers df =
     (case transformers of
        [PTuple [PStr key, PEst MinMaxScaler, PNames cols]] \<Rightarrow>
          (case fit_columns cols df of
             Inl e \<Rightarrow> Inl e
           | Inr ps \<Rightarrow>
               (case minmax_transform ps df of
                  Inl e \<Rightarrow> Inl e
                | Inr arr \<Rightarrow> Inr (ps, arr)))
      | _ \<Rightarrow> Inl NotImplementedError)"

definition minmax_sklearn :: "(string \<times> pyfloat \<times> pyfloat) list sklearn" where
  "minmax_sklearn =
     \<lparr>fit_transform = minmax_fit_transform,
      transform = minmax_transform,
      get_feature_names_out = (\<lambda>ps key cols. Inl KeyError)\<rparr>"

text \<open>
  \<open>onehot_names categories\<close> is \<open>get_feature_names_out\<close> of a preprocessor whose one-hot
  encoders (\<open>drop='first'\<close>) have learned, per transformer key, the given categories in
  their sorted order: for the one column of the encoder, the column name, an underscore
  and each category but the first. An unknown key is a KeyError, another number of
  columns a ValueError.
\<close>

definition onehot_names ::
  "(string \<times> string list) list \<Rightarrow> string \<Rightarrow> string list \<Rightarrow> error + string list" where
  "onehot_names categories key cols =
     (case map_of categories key of
        None \<Rightarrow> Inl KeyError
      | Some cats \<Rightarrow>
          (case cols of
             [c] \<Rightarrow> Inr (map (\<lambda>v. c @ ''_'' @ v) (tl cats))
           | _ \<Rightarrow> Inl ValueError))"






section \<open>Example inputs\<close>

definition numeric_train :: dataframe where
  "numeric_train = \<lparr>n_rows = 3, df_columns =
     [\<lparr>col_name = ''x'', col_dtype = Number, col_values = [Num (Fin 1), Num (Fin 2), Num (Fin 3)]\<rparr>]\<rparr>"

definition numeric_test :: dataframe where
  "numeric_test = \<lparr>n_rows = 2, df_columns =
     [\<lparr>col_name = ''x'', col_dtype = Number, col_values = [Num (Fin 2), Num (Fin 4)]\<rparr>]\<rparr>"

definition numeric_train_out :: dataframe where
  "numeric_train_out = \<lparr>n_rows = 3, df_columns =
     [\<lparr>col_name = ''x'', col_dtype = Number, col_values = [Num (Fin 0), Num (Fin (1 / 2)), Num (Fin 1)]\<rparr>]\<rparr>"

definition numeric_test_out :: dataframe where
  "numeric_test_out = \<lparr>n_rows = 2, df_columns =
     [\<lparr>col_name = ''x'', col_dtype = Number, col_values = [Num (Fin (1 / 2)), Num (Fin (3 / 2))]\<rparr>]\<rparr>"

text \<open>Two numeric columns with a datetime column between them.\<close>

definition mixed_train :: dataframe where
  "mixed_train = \<lparr>n_rows = 2, df_columns =
     [\<lparr>col_name = ''a'', col_dtype = Number, col_values = [Num (Fin 1), Num (Fin 3)]\<rparr>,
      \<lparr>col_name = ''when'', col_dtype = Other, col_values = [Str ''2024-01-01'', Str ''2024-01-02'']\<rparr>,
      \<lparr>col_name = ''b'', col_dtype = Number, col_values = [Num (Fin 10), Num (Fin 20)]\<rparr>]\<rparr>"

definition mixed_test :: dataframe where
  "mixed_test = \<lparr>n_rows = 1, df_columns =
     [\<lparr>col_name = ''a'', col_dtype = Number, col_values = [Num (Fin 2)]\<rparr>,
      \<lparr>col_name = ''when'', col_dtype = Other, col_values = [Str ''2024-01-03'']\<rparr>,
      \<lparr>col_name = ''b'', col_dtype = Number, col_values = [Num (Fin 15)]\<rparr>]\<rparr>"

definition mixed_train_out :: dataframe where
  "mixed_train_out = \<lparr>n_rows = 2, df_columns =
     [\<lparr>col_name = ''a'', col_dtype = Number, col_values = [Num (Fin 0), Num (Fin 1)]\<rparr>,
      \<lparr>col_name = ''b'', col_dtype = Number, col_values = [Num (Fin 0), Num (Fin 1)]\<rparr>]\<rparr>"

definition mixed_test_out :: dataframe where
  "mixed_test_out = \<lparr>n_rows = 1, df_columns =
     [\<lparr>col_name = ''a'', col_dtype = Number, col_values = [Num (Fin (1 / 2))]\<rparr>,
      \<lparr>col_name = ''b'', col_dtype = Number, col_values = [Num (Fin (1 / 2))]\<rparr>]\<rparr>"

definition city_train :: dataframe where
  "city_train = \<lparr>n_rows = 3, df_columns =
     [\<lparr>col_name = ''x'', col_dtype = Number, col_values = [Num (Fin 1), Num (Fin 2), Num (Fin 3)]\<rparr>,
      \<lparr>col_name = ''city'', col_dtype = Object, col_values = [Str ''NY'', Str ''LA'', Str ''NY'']\<rparr>]\<rparr>"

definition city_test :: dataframe where
  "city_test = \<lparr>n_rows = 1, df_columns =
     [\<lparr>col_name = ''x'', col_dtype = Number, col_values = [Num (Fin 2)]\<rparr>,
      \<lparr>col_name = ''city'', col_dtype = Object, col_values = [Str ''LA'']\<rparr>]\<rparr>"

definition abc_train :: dataframe where
  "abc_train = \<lparr>n_rows = 3, df_columns =
     [\<lparr>col_name = ''col'', col_dtype = Object, col_values = [Str ''A'', Str ''B'', Str ''C'']\<rparr>]\<rparr>"

definition abc_test :: dataframe where
  "abc_test = \<lparr>n_rows = 2, df_columns =
     [\<lparr>col_name = ''col'', col_dtype = Object, col_values = [Str ''B'', Str ''A'']\<rparr>]\<rparr>"

definition grade_train :: dataframe where
  "grade_train = \<lparr>n_rows = 2, df_columns =
     [\<lparr>col_name = ''grade'', col_dtype = Category, col_values = [Str ''low'', Str ''high'']\<rparr>]\<rparr>"

definition grade_test :: dataframe where
  "grade_test = \<lparr>n_rows = 1, df_columns =
     [\<lparr>col_name = ''grade'', col_dtype = Category, col_values = [Str ''high'']\<rparr>]\<rparr>"

text \<open>
  The arrays a fitted preprocessor would give for the frames with \<open>x\<close>, a one-hot
  \<open>city\<close> (categories LA, NY) and an ordinal \<open>grade\<close>.
\<close>

definition encoded_train_array :: ndarray where
  "encoded_train_array = \<lparr>shape0 = 2, array_columns =
     [[Num (Fin 0), Num (Fin 1)], [Num (Fin 1), Num (Fin 0)], [Num (Fin 0), Num (Fin 1)]]\<rparr>"

definition encoded_test_array :: ndarray where
  "encoded_test_array = \<lparr>shape0 = 1, array_columns = [[Num (Fin (1 / 2))], [Num (Fin 1)], [Num (Fin 1)]]\<rparr>"

text \<open>A store holding \<open>mixed_train\<close> at address 0 and \<open>mixed_test\<close> at address 1.\<close>

definition two_frames :: "dataframe world" where
  "two_frames =
     \<lparr>heap = (\<lambda>a. if a = 0 then mixed_train else mixed_test), next_free = 2, stdout = []\<rparr>"

definition two_frames_after :: "dataframe world" where
  "two_frames_after =
     \<lparr>heap = (heap two_frames)(2 := mixed_train_out, 3 := mixed_test_out),
      next_free = 4, stdout = []\<rparr>"



section \<open>Predicates used in the statements\<close>

text \<open>
  \<open>expands names_out preprocessor encoder_type cat_col names\<close>: \<open>names\<close> are the output
  column names that lines 113-116 give the categorical column \<open>cat_col\<close>.
\<close>

definition expands ::
  "('p \<Rightarrow> string \<Rightarrow> string list \<Rightarrow> error + string list) \<Rightarrow> 'p \<Rightarrow> encoder_dict
     \<Rightarrow> string \<Rightarrow> string list \<Rightarrow> bool" where
  "expands names_out preprocessor encoder_type cat_col names =
     (if truthy encoder_type \<and> dict_get encoder_type cat_col = Some ''onehot''
      then names_out preprocessor (''cat_'' @ cat_col) [cat_col] = Inr names
      else names = [cat_col])"

text \<open>
  \<open>keeps_objects w w'\<close>: from the store \<open>w\<close> to the store \<open>w'\<close> no object of \<open>w\<close> has
  changed, none has gone, and nothing has been printed. \<open>reads_only skr\<close>: the two library
  calls that are handed a frame keep the objects of the store they are called in.
\<close>

definition keeps_objects :: "'a world \<Rightarrow> 'a world \<Rightarrow> bool" where
  "keeps_objects w w' =
     ((\<forall>a. a < next_free w \<longrightarrow> heap w' a = heap w a)
      \<and> next_free w \<le> next_free w' \<and> stdout w' = stdout w)"

definition reads_only :: "'p sklearn_ref \<Rightarrow> bool" where
  "reads_only skr =
     ((\<forall>transformers a w. keeps_objects w (snd (fit_transform_ref skr transformers a w)))
      \<and> (\<forall>p a w. keeps_objects w (snd (transform_ref skr p a w))))"




section \<open>Properties of preprocessing\<close>

subsection \<open>The two places where the function raises\<close>

lemma select_scaler_cases:
  "select_scaler scaler_type =
     (if scaler_type = ''minmax'' then Inr MinMaxScaler
      else if scaler_type = ''robust'' then Inr RobustScaler
      else Inl UnboundLocalError)"
  by (simp add: select_scaler_def)

lemma encode_columns_cases:
  "encode_columns encoder_type cat_feat transformers =
     (if cat_feat = [] then Inr transformers else Inl TypeError)"
  by (cases cat_feat) (simp_all add: list_append_def)

lemma cat_feat_examples:
  "columns (select_dtypes [Object, Category] numeric_train) = []"
  "columns (select_dtypes [Object, Category] city_train) = [''city'']"
  "columns (select_dtypes [Object, Category] abc_train) = [''col'']"
  "columns (select_dtypes [Object, Category] grade_train) = [''grade'']"
  by (simp_all add: columns_def select_dtypes_def numeric_train_def city_train_def abc_train_def
        grade_train_def)

text \<open>
  C1. The claim: the scaler is chosen from \<open>scaler_type\<close> alone and the call does not fail
  on it, \<open>'power'\<close> giving PowerTransformer and every other value, the default
  \<open>'standard'\<close> included, StandardScaler. The code: with \<open>'standard'\<close> and with
  \<open>'power'\<close> the call raises UnboundLocalError at line 77, whatever the frames, the
  encoders and the library.
\<close>

theorem scaler_standard_and_power_raise:
  "preprocessing sk train_df test_df ''standard'' encoder_type = Inl UnboundLocalError
   \<and> preprocessing sk train_df test_df ''power'' encoder_type = Inl UnboundLocalError"
  by (simp add: preprocessing_def select_scaler_cases)

text \<open>
  C2. The claim: for every valid pair of frames the call returns two tables with the rows
  of its inputs. The code: called on the numeric frames with the default scaler it raises
  UnboundLocalError, and called on the frames with a \<open>city\<close> column and \<open>'minmax'\<close> it
  raises TypeError; no table is returned.
\<close>

theorem valid_frames_raise:
  "preprocessing sk numeric_train numeric_test ''standard'' None = Inl UnboundLocalError
   \<and> preprocessing sk city_train city_test ''minmax'' None = Inl TypeError"
  by (simp add: preprocessing_def select_scaler_cases encode_columns_cases cat_feat_examples)

text \<open>
  C3. The claim: a one-hot encoded column with categories A, B, C gives the output columns
  for B and C. The code: with the encoding requested (\<open>{'col': 'onehot'}\<close>) and with the
  default (\<open>None\<close>) the call raises TypeError at line 98; there is no output.
\<close>

theorem onehot_column_raises:
  "preprocessing sk abc_train abc_test ''minmax'' (Some [(''col'', ''onehot'')]) = Inl TypeError
   \<and> preprocessing sk abc_train abc_test ''minmax'' None = Inl TypeError"
  by (simp add: preprocessing_def select_scaler_cases encode_columns_cases cat_feat_examples)

text \<open>What lines 87-95 resolve, and the names lines 111-116 give without a dict.\<close>

lemma select_encoder_default:
  "select_encoder None cat_col = OneHotEncoder False ''first''"
  "select_encoder (Some []) cat_col = OneHotEncoder False ''first''"
  "map_of d cat_col = None \<Longrightarrow> select_encoder (Some d) cat_col = OneHotEncoder False ''first''"
  by (simp_all add: select_encoder_def truthy_def dict_contains_def dict_get_def)

lemma select_encoder_mapped:
  "map_of d cat_col = Some v \<Longrightarrow>
     select_encoder (Some d) cat_col =
       (if v = ''label'' then LabelEncoder
        else if v = ''ordinal'' then OrdinalEncoder
        else OneHotEncoder False ''first'')"
  by (auto simp: select_encoder_def truthy_def dict_contains_def dict_get_def)

lemma cat_col_names_no_dict:
  "cat_col_names names_out p None cat_feat acc = Inr (acc @ cat_feat)"
  by (induction cat_feat arbitrary: acc) (simp_all add: truthy_def)

text \<open>
  C4. The claim: each categorical column's encoder is resolved from \<open>encoder_type\<close>, fit
  on the training values and applied to both tables. The code: the loop of lines 85-98
  resolves the encoder of the first categorical column and then raises TypeError at the
  \<open>append\<close>, for every \<open>encoder_type\<close>; no encoder reaches the transformer list, none is
  fit, and the call on the frames with a \<open>city\<close> column ends in that error.
\<close>

theorem encoder_loop_raises:
  "encode_columns encoder_type (cat_col # rest) transformers = Inl TypeError
   \<and> preprocessing sk city_train city_test ''robust'' (Some [(''city'', ''onehot'')]) = Inl TypeError"
  by (simp add: list_append_def preprocessing_def select_scaler_cases cat_feat_examples)

text \<open>
  C6. The claim: a column encoded as label or ordinal gives one output column of its own
  name. The code: with \<open>{'grade': 'label'}\<close> and with \<open>{'grade': 'ordinal'}\<close> the call
  raises TypeError at line 98; there is no output.
\<close>

theorem label_ordinal_column_raises:
  "preprocessing sk grade_train grade_test ''minmax'' (Some [(''grade'', ''label'')]) = Inl TypeError
   \<and> preprocessing sk grade_train grade_test ''robust'' (Some [(''grade'', ''ordinal'')]) = Inl TypeError"
  by (simp add: preprocessing_def select_scaler_cases encode_columns_cases cat_feat_examples)

text \<open>What the call does on a training frame with a categorical column, for every library.\<close>

lemma categorical_column_raises:
  assumes "columns (select_dtypes [Object, Category] train_df) \<noteq> []"
  shows "preprocessing sk train_df test_df scaler_type encoder_type =
           Inl (if scaler_type = ''minmax'' \<or> scaler_type = ''robust''
                then TypeError else UnboundLocalError)"
  using assms by (simp add: preprocessing_def Let_def select_scaler_cases encode_columns_cases)

text \<open>
  C9. The claim: on every training frame with a categorical column the call raises the
  TypeError of the three-argument \<open>append\<close> of line 98. The code: the frame has the
  categorical column \<open>city\<close>, the scaler is the default one, and the call raises the
  UnboundLocalError of line 77 before it reaches line 98.
\<close>

theorem categorical_column_not_type_error:
  "columns (select_dtypes [Object, Category] city_train) = [''city'']
   \<and> preprocessing sk city_train city_test ''standard'' None = Inl UnboundLocalError
   \<and> preprocessing sk city_train city_test ''standard'' None \<noteq> Inl TypeError"
  by (simp add: preprocessing_def select_scaler_cases cat_feat_examples)

subsection \<open>The columns of a call that returns\<close>

lemma columns_DataFrame: "DataFrame arr names = Inr df \<Longrightarrow> columns df = names"
  by (auto simp: DataFrame_def columns_def split: if_splits intro: nth_equalityI)

lemma cat_col_names_groups:
  "cat_col_names names_out p encoder_type cat_feat acc = Inr names \<Longrightarrow>
     \<exists>groups. list_all2 (expands names_out p encoder_type) cat_feat groups \<and> names = acc @ concat groups"
proof (induction cat_feat arbitrary: acc)
  case Nil
  then show ?case by simp
next
  case (Cons c cs)
  show ?case
  proof (cases "truthy encoder_type \<and> dict_get encoder_type c = Some ''onehot''")
    case True
    with Cons.prems obtain g where g: "names_out p (''cat_'' @ c) [c] = Inr g"
      and rest: "cat_col_names names_out p encoder_type cs (acc @ g) = Inr names"
      by (auto split: sum.splits)
    from Cons.IH[OF rest] obtain groups where
      "list_all2 (expands names_out p encoder_type) cs groups" "names = (acc @ g) @ concat groups"
      by blast
    with True g have "list_all2 (expands names_out p encoder_type) (c # cs) (g # groups)
        \<and> names = acc @ concat (g # groups)"
      by (simp add: expands_def)
    then show ?thesis by blast
  next
    case False
    with Cons.prems have rest: "cat_col_names names_out p encoder_type cs (acc @ [c]) = Inr names"
      by (auto split: sum.splits)
    from Cons.IH[OF rest] obtain groups where
      "list_all2 (expands names_out p encoder_type) cs groups" "names = (acc @ [c]) @ concat groups"
      by blast
    with False have "list_all2 (expands names_out p encoder_type) (c # cs) ([c] # groups)
        \<and> names = acc @ concat ([c] # groups)"
      by (auto simp: expands_def)
    then show ?thesis by blast
  qed
qed

lemma preprocessing_Inr:
  assumes "preprocessing sk train_df test_df scaler_type encoder_type = Inr (train_out, test_out)"
  shows "\<exists>scaler p train_arr test_arr.
           select_scaler scaler_type = Inr scaler
         \<and> columns (select_dtypes [Object, Category] train_df) = []
         \<and> fit_transform sk
               [PTuple [PStr ''num'', PEst scaler, PNames (columns (select_dtypes [Number] train_df))]]
               train_df = Inr (p, train_arr)
         \<and> transform sk p test_df = Inr test_arr
         \<and> DataFrame train_arr (columns (select_dtypes [Number] train_df)) = Inr train_out
         \<and> DataFrame test_arr (columns (select_dtypes [Number] train_df)) = Inr test_out"
  using assms
  by (auto simp: preprocessing_def Let_def encode_columns_cases
           split: sum.splits if_splits prod.splits)

lemma mixed_run:
  "preprocessing minmax_sklearn mixed_train mixed_test ''minmax'' encoder_type
     = Inr (mixed_train_out, mixed_test_out)"
  by (simp add: preprocessing_def mixed_train_def mixed_test_def mixed_train_out_def
        mixed_test_out_def select_scaler_cases encode_columns_cases select_dtypes_def columns_def
        minmax_sklearn_def minmax_fit_transform_def minmax_transform_def minmax_fit_def
        the_column_def DataFrame_def)

text \<open>
  C5. When the call returns, the two output tables have the same column names in the same
  order: the numeric columns of \<open>train_df\<close> in their order. A returning call has met no
  categorical column (the loop of lines 85-98 raises on the first one), so no name
  follows them. Lines 106-121 by themselves, for any fitted preprocessor and any two
  arrays they can make frames of: both frames get the numeric names followed by one group
  of names per categorical column, in the order of the columns, the group being what
  lines 113-116 give the column.
\<close>

theorem output_columns:
  "(preprocessing sk train_df test_df scaler_type encoder_type = Inr (train_out, test_out) \<longrightarrow>
      columns (select_dtypes [Object, Category] train_df) = []
      \<and> columns train_out = columns (select_dtypes [Number] train_df)
      \<and> columns test_out = columns train_out)
   \<and> (cat_col_names names_out p encoder_type cat_feat [] = Inr names
       \<and> DataFrame train_arr (num_feat @ names) = Inr train_out'
       \<and> DataFrame test_arr (num_feat @ names) = Inr test_out' \<longrightarrow>
      columns test_out' = columns train_out'
      \<and> (\<exists>groups. list_all2 (expands names_out p encoder_type) cat_feat groups
            \<and> columns train_out' = num_feat @ concat groups))"
proof (intro conjI impI)
  assume r: "preprocessing sk train_df test_df scaler_type encoder_type = Inr (train_out, test_out)"
  from preprocessing_Inr[OF r] obtain train_arr' test_arr' where
    c: "columns (select_dtypes [Object, Category] train_df) = []"
    and a: "DataFrame train_arr' (columns (select_dtypes [Number] train_df)) = Inr train_out"
    and b: "DataFrame test_arr' (columns (select_dtypes [Number] train_df)) = Inr test_out"
    by blast
  show "columns (select_dtypes [Object, Category] train_df) = []" by (rule c)
  show "columns train_out = columns (select_dtypes [Number] train_df)"
    by (rule columns_DataFrame[OF a])
  show "columns test_out = columns train_out"
    by (simp add: columns_DataFrame[OF a] columns_DataFrame[OF b])
next
  assume h: "cat_col_names names_out p encoder_type cat_feat [] = Inr names
       \<and> DataFrame train_arr (num_feat @ names) = Inr train_out'
       \<and> DataFrame test_arr (num_feat @ names) = Inr test_out'"
  then have a: "DataFrame train_arr (num_feat @ names) = Inr train_out'"
    and b: "DataFrame test_arr (num_feat @ names) = Inr test_out'"
    and n: "cat_col_names names_out p encoder_type cat_feat [] = Inr names"
    by simp_all
  show "columns test_out' = columns train_out'"
    by (simp add: columns_DataFrame[OF a] columns_DataFrame[OF b])
  from cat_col_names_groups[OF n]
  obtain groups where "list_all2 (expands names_out p encoder_type) cat_feat groups"
    and "names = concat groups" by auto
  then show "\<exists>groups. list_all2 (expands names_out p encoder_type) cat_feat groups
            \<and> columns train_out' = num_feat @ concat groups"
    using columns_DataFrame[OF a] by auto
qed

lemma encoded_names:
  "cat_col_names onehot_names [(''cat_city'', [''LA'', ''NY''])] (Some [(''city'', ''onehot''), (''grade'', ''ordinal'')])
     [''city'', ''grade''] [] = Inr [''city_NY'', ''grade'']"
  by (simp add: truthy_def dict_get_def onehot_names_def)

theorem output_columns_witness:
  "preprocessing minmax_sklearn mixed_train mixed_test ''minmax''
       (Some [(''city'', ''onehot''), (''grade'', ''ordinal'')])
     = Inr (mixed_train_out, mixed_test_out)
   \<and> columns (select_dtypes [Object, Category] mixed_train) = []
   \<and> columns (select_dtypes [Number] mixed_train) = [''a'', ''b'']
   \<and> columns mixed_train_out = [''a'', ''b'']
   \<and> columns mixed_test_out = [''a'', ''b'']
   \<and> cat_col_names onehot_names [(''cat_city'', [''LA'', ''NY''])]
         (Some [(''city'', ''onehot''), (''grade'', ''ordinal'')]) [''city'', ''grade''] []
       = Inr [''city_NY'', ''grade'']
   \<and> (\<exists>train_out test_out.
         DataFrame encoded_train_array ([''x''] @ [''city_NY'', ''grade'']) = Inr train_out
         \<and> DataFrame encoded_test_array ([''x''] @ [''city_NY'', ''grade'']) = Inr test_out
         \<and> columns test_out = columns train_out
         \<and> columns train_out = [''x'', ''city_NY'', ''grade'']
         \<and> (\<exists>groups.
               list_all2 (expands onehot_names [(''cat_city'', [''LA'', ''NY''])]
                            (Some [(''city'', ''onehot''), (''grade'', ''ordinal'')]))
                 [''city'', ''grade''] groups
               \<and> columns train_out = [''x''] @ concat groups))"
proof -
  obtain train_out where a: "DataFrame encoded_train_array ([''x''] @ [''city_NY'', ''grade'']) = Inr train_out"
    by (simp add: DataFrame_def encoded_train_array_def)
  obtain test_out where b: "DataFrame encoded_test_array ([''x''] @ [''city_NY'', ''grade'']) = Inr test_out"
    by (simp add: DataFrame_def encoded_test_array_def)
  note t = output_columns
      [where sk = minmax_sklearn and train_df = mixed_train and test_df = mixed_test
         and scaler_type = "''minmax''" and encoder_type = "Some [(''city'', ''onehot''), (''grade'', ''ordinal'')]"
         and train_out = mixed_train_out and test_out = mixed_test_out
         and names_out = onehot_names and p = "[(''cat_city'', [''LA'', ''NY''])]"
         and cat_feat = "[''city'', ''grade'']" and names = "[''city_NY'', ''grade'']"
         and train_arr = encoded_train_array and test_arr = encoded_test_array
         and num_feat = "[''x'']" and train_out' = train_out and test_out' = test_out]
  from t mixed_run have 1: "columns (select_dtypes [Object, Category] mixed_train) = []"
    "columns mixed_train_out = columns (select_dtypes [Number] mixed_train)"
    "columns mixed_test_out = columns mixed_train_out"
    by blast+
  from t encoded_names a b have 2: "columns test_out = columns train_out"
    "\<exists>groups.
        list_all2 (expands onehot_names [(''cat_city'', [''LA'', ''NY''])]
                     (Some [(''city'', ''onehot''), (''grade'', ''ordinal'')]))
          [''city'', ''grade''] groups
        \<and> columns train_out = [''x''] @ concat groups"
    by blast+
  have 3: "columns (select_dtypes [Number] mixed_train) = [''a'', ''b'']"
    by (simp add: columns_def select_dtypes_def mixed_train_def)
  have 4: "columns train_out = [''x'', ''city_NY'', ''grade'']"
    using columns_DataFrame[OF a] by simp
  from 1 2 3 4 a b mixed_run encoded_names show ?thesis by auto
qed

subsection \<open>The call and the caller's objects\<close>

lemma keeps_objects_refl: "keeps_objects w w"
  by (simp add: keeps_objects_def)

lemma keeps_objects_trans: "keeps_objects w w1 \<Longrightarrow> keeps_objects w1 w2 \<Longrightarrow> keeps_objects w w2"
  by (auto simp: keeps_objects_def)

lemma keeps_objects_alloc: "alloc v w = (a, w') \<Longrightarrow> keeps_objects w w'"
  by (auto simp: keeps_objects_def alloc_def)

lemma alloc_new:
  "alloc v w = (a, w') \<Longrightarrow> a = next_free w \<and> next_free w' = Suc (next_free w) \<and> heap w' a = v"
  by (auto simp: alloc_def)

lemma reads_only_fit:
  assumes "reads_only skr" and "fit_transform_ref skr transformers a w = (r, w')"
  shows "keeps_objects w w'"
proof -
  from assms(1) have "keeps_objects w (snd (fit_transform_ref skr transformers a w))"
    unfolding reads_only_def by blast
  with assms(2) show ?thesis by simp
qed

lemma reads_only_transform:
  assumes "reads_only skr" and "transform_ref skr p a w = (r, w')"
  shows "keeps_objects w w'"
proof -
  from assms(1) have "keeps_objects w (snd (transform_ref skr p a w))"
    unfolding reads_only_def by blast
  with assms(2) show ?thesis by simp
qed

text \<open>The statements a returning call has gone through, with the stores between them.\<close>

lemma on_store_Inr:
  assumes "preprocessing_on_store skr train_df test_df scaler_type encoder_type w = (Inr (a, b), w')"
  shows "\<exists>scaler p train_arr test_arr w1 w2 w3 train_out test_out.
           select_scaler scaler_type = Inr scaler
         \<and> columns (select_dtypes [Object, Category] (heap w train_df)) = []
         \<and> fit_transform_ref skr
               [PTuple [PStr ''num'', PEst scaler, PNames (columns (select_dtypes [Number] (heap w train_df)))]]
               train_df w = (Inr (p, train_arr), w1)
         \<and> transform_ref skr p test_df w1 = (Inr test_arr, w2)
         \<and> DataFrame train_arr (columns (select_dtypes [Number] (heap w train_df))) = Inr train_out
         \<and> DataFrame test_arr (columns (select_dtypes [Number] (heap w train_df))) = Inr test_out
         \<and> alloc train_out w2 = (a, w3) \<and> alloc test_out w3 = (b, w')"
  using assms
  by (auto simp: preprocessing_on_store_def Let_def encode_columns_cases
           split: sum.splits prod.splits if_splits)

lemma on_store_Inl:
  assumes "preprocessing_on_store skr train_df test_df scaler_type encoder_type w = (Inl e, w')"
  shows "w' = w
       \<or> (\<exists>ts r. fit_transform_ref skr ts train_df w = (r, w'))
       \<or> (\<exists>ts r w1 p r'. fit_transform_ref skr ts train_df w = (r, w1)
              \<and> (transform_ref skr p test_df w1 = (r', w') \<or>
                  (\<exists>w2 v a. transform_ref skr p test_df w1 = (r', w2) \<and> alloc v w2 = (a, w'))))"
  using assms
  by (auto simp: preprocessing_on_store_def Let_def encode_columns_cases
           split: sum.splits prod.splits if_splits)

lemma on_store_keeps:
  assumes ro: "reads_only skr"
    and run: "preprocessing_on_store skr train_df test_df scaler_type encoder_type w = (r, w')"
  shows "keeps_objects w w'"
proof (cases r)
  case (Inl e)
  from on_store_Inl[OF run[unfolded Inl]] show ?thesis
  proof (elim disjE exE conjE)
    assume "w' = w" then show ?thesis by (simp add: keeps_objects_refl)
  next
    fix ts r0 assume "fit_transform_ref skr ts train_df w = (r0, w')"
    then show ?thesis by (rule reads_only_fit[OF ro])
  next
    fix ts r0 w1 p r' assume f: "fit_transform_ref skr ts train_df w = (r0, w1)"
      and t: "transform_ref skr p test_df w1 = (r', w')"
    from reads_only_fit[OF ro f] reads_only_transform[OF ro t] show ?thesis
      by (rule keeps_objects_trans)
  next
    fix ts r0 w1 p r' w2 v a assume f: "fit_transform_ref skr ts train_df w = (r0, w1)"
      and t: "transform_ref skr p test_df w1 = (r', w2)" and al: "alloc v w2 = (a, w')"
    from reads_only_fit[OF ro f] reads_only_transform[OF ro t] have "keeps_objects w w2"
      by (rule keeps_objects_trans)
    with keeps_objects_alloc[OF al] show ?thesis by (blast intro: keeps_objects_trans)
  qed
next
  case (Inr ab)
  obtain a b where ab: "ab = (a, b)" by (cases ab)
  from on_store_Inr[OF run[unfolded Inr ab]] obtain ts p train_arr test_arr w1 w2 w3 train_out test_out
    where f: "fit_transform_ref skr ts train_df w = (Inr (p, train_arr), w1)"
      and t: "transform_ref skr p test_df w1 = (Inr test_arr, w2)"
      and a1: "alloc train_out w2 = (a, w3)" and a2: "alloc test_out w3 = (b, w')"
    by blast
  from reads_only_fit[OF ro f] reads_only_transform[OF ro t] have "keeps_objects w w2"
    by (rule keeps_objects_trans)
  with keeps_objects_alloc[OF a1] have "keeps_objects w w3" by (blast intro: keeps_objects_trans)
  with keeps_objects_alloc[OF a2] show ?thesis by (blast intro: keeps_objects_trans)
qed

lemma reads_only_by_value: "reads_only (by_value sk)"
  by (simp add: reads_only_def by_value_def keeps_objects_def)

text \<open>
  With such a library the call on the store gives what the function on the values gives:
  the same error, or two new objects holding the two tables.
\<close>

lemma on_store_by_value_result:
  "fst (preprocessing_on_store (by_value sk) train_df test_df scaler_type encoder_type w) =
     (case preprocessing sk (heap w train_df) (heap w test_df) scaler_type encoder_type of
        Inl e \<Rightarrow> Inl e
      | Inr tables \<Rightarrow> Inr (next_free w, Suc (next_free w)))"
  by (auto simp: preprocessing_on_store_def preprocessing_def by_value_def Let_def alloc_def
           split: sum.splits prod.splits)

lemma on_store_by_value:
  assumes "preprocessing sk (heap w train_df) (heap w test_df) scaler_type encoder_type
             = Inr (train_out, test_out)"
  shows "preprocessing_on_store (by_value sk) train_df test_df scaler_type encoder_type w =
          (Inr (next_free w, Suc (next_free w)),
           w\<lparr>heap := (heap w)(next_free w := train_out, Suc (next_free w) := test_out),
             next_free := Suc (Suc (next_free w))\<rparr>)"
  using assms
  by (auto simp: preprocessing_on_store_def preprocessing_def by_value_def Let_def alloc_def
           split: sum.splits prod.splits)

text \<open>
  C7. Provided the two library calls that are handed a frame keep the objects of the store
  and print nothing, a call to \<open>preprocessing\<close> changes no object that existed before
  it, \<open>train_df\<close> and \<open>test_df\<close> among them, and prints nothing. When it returns, the two
  tables are two new, distinct objects, each a whole frame made by \<open>pd.DataFrame\<close>; when
  it raises, the caller is handed no table.
\<close>

theorem preprocessing_keeps_objects:
  assumes "reads_only skr"
    and "train_df < next_free w" and "test_df < next_free w"
    and "preprocessing_on_store skr train_df test_df scaler_type encoder_type w = (r, w')"
  shows "heap w' train_df = heap w train_df \<and> heap w' test_df = heap w test_df
       \<and> keeps_objects w w'
       \<and> (\<forall>a b. r = Inr (a, b) \<longrightarrow>
              next_free w \<le> a \<and> a < b \<and> b < next_free w'
              \<and> (\<exists>train_arr test_arr.
                    DataFrame train_arr (columns (select_dtypes [Number] (heap w train_df)))
                      = Inr (heap w' a)
                    \<and> DataFrame test_arr (columns (select_dtypes [Number] (heap w train_df)))
                      = Inr (heap w' b)))"
proof -
  have k: "keeps_objects w w'" by (rule on_store_keeps[OF assms(1,4)])
  with assms(2,3) have io: "heap w' train_df = heap w train_df" "heap w' test_df = heap w test_df"
    by (simp_all add: keeps_objects_def)
  have out: "next_free w \<le> a \<and> a < b \<and> b < next_free w'
              \<and> (\<exists>train_arr test_arr.
                    DataFrame train_arr (columns (select_dtypes [Number] (heap w train_df)))
                      = Inr (heap w' a)
                    \<and> DataFrame test_arr (columns (select_dtypes [Number] (heap w train_df)))
                      = Inr (heap w' b))" if r: "r = Inr (a, b)" for a b
  proof -
    from on_store_Inr[OF assms(4)[unfolded r]] obtain ts p train_arr test_arr w1 w2 w3 train_out test_out
      where f: "fit_transform_ref skr ts train_df w = (Inr (p, train_arr), w1)"
        and t: "transform_ref skr p test_df w1 = (Inr test_arr, w2)"
        and d1: "DataFrame train_arr (columns (select_dtypes [Number] (heap w train_df))) = Inr train_out"
        and d2: "DataFrame test_arr (columns (select_dtypes [Number] (heap w train_df))) = Inr test_out"
        and a1: "alloc train_out w2 = (a, w3)" and a2: "alloc test_out w3 = (b, w')"
      by blast
    from reads_only_fit[OF assms(1) f] reads_only_transform[OF assms(1) t]
    have "next_free w \<le> next_free w2" by (simp add: keeps_objects_def)
    with alloc_new[OF a1] alloc_new[OF a2] a1 a2 d1 d2 show ?thesis
      by (auto simp: alloc_def)
  qed
  from k io out show ?thesis by blast
qed

theorem preprocessing_keeps_objects_witness:
  "reads_only (by_value minmax_sklearn)
   \<and> 0 < next_free two_frames \<and> 1 < next_free two_frames
   \<and> preprocessing_on_store (by_value minmax_sklearn) 0 1 ''minmax'' None two_frames
        = (Inr (2, 3), two_frames_after)
   \<and> heap two_frames_after 0 = heap two_frames 0 \<and> heap two_frames_after 1 = heap two_frames 1
   \<and> keeps_objects two_frames two_frames_after
   \<and> next_free two_frames \<le> 2 \<and> (2::nat) < 3 \<and> 3 < next_free two_frames_after
   \<and> (\<exists>train_arr test_arr.
         DataFrame train_arr (columns (select_dtypes [Number] (heap two_frames 0)))
           = Inr (heap two_frames_after 2)
         \<and> DataFrame test_arr (columns (select_dtypes [Number] (heap two_frames 0)))
           = Inr (heap two_frames_after 3))
   \<and> preprocessing_on_store (by_value minmax_sklearn) 0 1 ''standard'' None two_frames
        = (Inl UnboundLocalError, two_frames)
   \<and> keeps_objects two_frames two_frames"
proof -
  have n: "0 < next_free two_frames" "1 < next_free two_frames"
    by (simp_all add: two_frames_def)
  have run: "preprocessing_on_store (by_value minmax_sklearn) 0 1 ''minmax'' None two_frames
        = (Inr (2, 3), two_frames_after)"
    using on_store_by_value[of minmax_sklearn two_frames 0 1 "''minmax''" None mixed_train_out mixed_test_out]
    by (simp add: two_frames_def two_frames_after_def mixed_run)
  have bad: "preprocessing_on_store (by_value minmax_sklearn) 0 1 ''standard'' None two_frames
        = (Inl UnboundLocalError, two_frames)"
    by (simp add: preprocessing_on_store_def select_scaler_cases)
  from preprocessing_keeps_objects[OF reads_only_by_value n run]
       preprocessing_keeps_objects[OF reads_only_by_value n bad]
       reads_only_by_value n run bad
  show ?thesis by simp
qed

section \<open>Properties of the hypothesis tests\<close>
















end
